theory Spec2Isabelle
  imports Main "HOL-Library.Word"
begin

text \<open>
  The real-time core of the group-chat client: the message codec, the handlers of the
  chat view for incoming messages, typing signals and read receipts, the sending of a
  message, and the hook that resolves media references to signed links. Each handler
  is a function from the state of the view to the new state and the list of its effects.
\<close>

section \<open>JavaScript strings and errors\<close>

text \<open>
  A JavaScript string is a sequence of UTF-16 code units. A literal of the source is
  written \<open>js ''...''\<close>. A raised exception is a value of type \<open>js_error\<close>; a
  computation that can raise returns \<open>js_error + 'a\<close>, with \<open>Inl\<close> the exception.
\<close>

type_synonym js_string = "16 word list"

definition js :: "string \<Rightarrow> js_string" where
  "js s = map of_char s"

datatype js_error = Error js_string

text \<open>
  A value read from a JSON body where the source expects a string: \<^verbatim>\<open>undefined\<close> when the
  field is missing, a string, or a value of another kind.
\<close>

datatype json_value = Undefined | Str js_string | Other_value

text \<open>\<^verbatim>\<open>String.prototype.startsWith\<close> and \<^verbatim>\<open>String.prototype.slice(n)\<close>.\<close>

definition startsWith :: "js_string \<Rightarrow> js_string \<Rightarrow> bool" where
  "startsWith s p = (take (length p) s = p)"

definition slice_from :: "nat \<Rightarrow> js_string \<Rightarrow> js_string" where
  "slice_from n s = drop n s"

text \<open>
  \<^verbatim>\<open>String.prototype.trim\<close> removes the code units of WhiteSpace and LineTerminator
  (ECMAScript) from both ends.
\<close>

definition is_js_whitespace :: "16 word \<Rightarrow> bool" where
  "is_js_whitespace c =
     (c = 0x09 \<or> c = 0x0A \<or> c = 0x0B \<or> c = 0x0C \<or> c = 0x0D \<or> c = 0x20 \<or> c = 0xA0
      \<or> c = 0x1680 \<or> (0x2000 \<le> c \<and> c \<le> 0x200A) \<or> c = 0x2028 \<or> c = 0x2029
      \<or> c = 0x202F \<or> c = 0x205F \<or> c = 0x3000 \<or> c = 0xFEFF)"

definition js_trim :: "js_string \<Rightarrow> js_string" where
  "js_trim s = rev (dropWhile is_js_whitespace (rev (dropWhile is_js_whitespace s)))"

section \<open>Message codec (src/util/encrypt.ts)\<close>

text \<open>
  The three operations of the crypto-js library that the codec calls. The library is not
  part of the repository, so it is a parameter of the codec:
  \<^item> \<open>AES_encrypt salt text key\<close> is \<^verbatim>\<open>CryptoJS.AES.encrypt(text, key).toString()\<close>
    (the library draws a random salt for every call, and raises on a text that it
    cannot encode as UTF-8, such as one with a lone surrogate);
  \<^item> \<open>AES_decrypt cipher key\<close> is \<^verbatim>\<open>CryptoJS.AES.decrypt(cipher, key)\<close>, a word array;
  \<^item> \<open>enc_Utf8 bytes\<close> is \<^verbatim>\<open>bytes.toString(CryptoJS.enc.Utf8)\<close>, which raises on
    malformed UTF-8.
\<close>

record ('s, 'w) CryptoJS =
  AES_encrypt :: "'s \<Rightarrow> js_string \<Rightarrow> js_string \<Rightarrow> js_error + js_string"
  AES_decrypt :: "js_string \<Rightarrow> js_string \<Rightarrow> js_error + 'w"
  enc_Utf8 :: "'w \<Rightarrow> js_error + js_string"

definition AES_KEY :: js_string where
  "AES_KEY = js ''0F7D51C8976E46ED''"

text \<open>\<open>encryptMessage\<close> has no \<^verbatim>\<open>try\<close>: an exception of the library is its own.\<close>

definition encryptMessage ::
    "('s, 'w) CryptoJS \<Rightarrow> 's \<Rightarrow> js_string \<Rightarrow> js_error + js_string" where
  "encryptMessage L r text_in =
     (case AES_encrypt L r text_in AES_KEY of
        Inl err \<Rightarrow> Inl err
      | Inr ciphertext \<Rightarrow> Inr (js ''ENC:'' @ ciphertext))"

text \<open>The body of the \<^verbatim>\<open>try\<close> block of \<^verbatim>\<open>decryptMessage\<close>.\<close>

definition decryptMessage_try :: "('s, 'w) CryptoJS \<Rightarrow> js_string \<Rightarrow> js_error + js_string" where
  "decryptMessage_try L cipher =
     (if \<not> startsWith cipher (js ''ENC:'') then Inr cipher
      else
        let encryptedPart = slice_from 4 cipher
        in case AES_decrypt L encryptedPart AES_KEY of
             Inl err \<Rightarrow> Inl err
           | Inr bytes \<Rightarrow>
               (case enc_Utf8 L bytes of
                  Inl err \<Rightarrow> Inl err
                | Inr plaintext \<Rightarrow>
                    if plaintext = [] then Inl (Error (js ''Failed to decrypt''))
                    else Inr plaintext))"

text \<open>\<^verbatim>\<open>try { ... } catch (err) { console.warn(...); return cipher; }\<close>\<close>

definition decryptMessage :: "('s, 'w) CryptoJS \<Rightarrow> js_string \<Rightarrow> js_error + js_string" where
  "decryptMessage L cipher =
     (case decryptMessage_try L cipher of
        Inl err \<Rightarrow> Inr cipher
      | Inr plaintext \<Rightarrow> Inr plaintext)"

text \<open>
  A stand-in for the library, used to evaluate the codec on concrete inputs: the
  cipher text is the reversed plain text, the word array is the string itself, and a
  text with a surrogate that is not part of a pair is refused, as the library does.
\<close>

definition is_high_surrogate :: "16 word \<Rightarrow> bool" where
  "is_high_surrogate c = (0xD800 \<le> c \<and> c \<le> 0xDBFF)"

definition is_low_surrogate :: "16 word \<Rightarrow> bool" where
  "is_low_surrogate c = (0xDC00 \<le> c \<and> c \<le> 0xDFFF)"

fun well_formed_utf16 :: "js_string \<Rightarrow> bool" where
  "well_formed_utf16 [] = True"
| "well_formed_utf16 [c] = (\<not> is_high_surrogate c \<and> \<not> is_low_surrogate c)"
| "well_formed_utf16 (c # d # cs) =
     (if is_high_surrogate c then is_low_surrogate d \<and> well_formed_utf16 cs
      else \<not> is_low_surrogate c \<and> well_formed_utf16 (d # cs))"

definition reversing_CryptoJS :: "(unit, js_string) CryptoJS" where
  "reversing_CryptoJS =
     \<lparr> AES_encrypt = (\<lambda>r text_in key. if well_formed_utf16 text_in then Inr (rev text_in)
                                     else Inl (Error (js ''URI malformed''))),
       AES_decrypt = (\<lambda>cipher key. Inr (rev cipher)),
       enc_Utf8 = (\<lambda>bytes. Inr bytes) \<rparr>"

section \<open>The chat view (src/pages/Chat.tsx)\<close>

subsection \<open>Data\<close>

record user =
  user_id :: js_string
  user_name :: js_string
  user_email :: js_string

text \<open>
  A message as it travels on the channel and as it is kept in the log. The fields that
  the source reads with \<^verbatim>\<open>?.\<close> or tests for presence are optional.
\<close>

record message =
  msg_id :: js_string
  msg_user :: "user option"
  msg_text :: js_string
  msg_time :: js_string
  mediaUrl :: "js_string option"
  mediaType :: "js_string option"
  readBy :: "js_string list option"
  groupId :: "js_string option"

record js_file =
  file_name :: js_string
  file_type :: js_string

text \<open>\<open>group_id\<close> is the field \<^verbatim>\<open>_id\<close> of a group.\<close>

record group =
  group_id :: js_string
  group_name :: js_string

record chat_props =
  group :: group
  user :: user
  token :: js_string

text \<open>
  The state of one mounted chat view: the \<^verbatim>\<open>useState\<close> cells of \<^verbatim>\<open>Chat\<close>, the cell of
  the hook \<^verbatim>\<open>useSignedURLs\<close> it calls, and the due times (in milliseconds) of the
  \<^verbatim>\<open>setTimeout\<close> callbacks it has scheduled and that have not run yet. The cell
  \<open>signedUrls\<close> holds a plain object, modelled by its own properties: \<open>None\<close> is a name
  that is not an own property, \<open>Some v\<close> an own property of value \<open>v\<close>; what the
  object inherits from its prototype is not modelled. The cell \<^verbatim>\<open>file\<close> is \<open>file_st\<close>.
\<close>

record chat_state =
  messages :: "message list"
  newMessage :: js_string
  typingUser :: js_string
  file_st :: "js_file option"
  processedMessages :: "js_string set"
  smartReplies :: "js_string list"
  signedUrls :: "js_string \<Rightarrow> json_value option"
  timers :: "nat list"

definition initial_state :: chat_state where
  "initial_state =
     \<lparr> messages = [], newMessage = [], typingUser = [], file_st = None,
       processedMessages = {}, smartReplies = [], signedUrls = (\<lambda>k. None), timers = [] \<rparr>"

text \<open>
  What the modelled handlers do besides updating the state: emissions on the socket,
  \<^verbatim>\<open>socket.connect()\<close>, \<^verbatim>\<open>console.error\<close> with its string arguments, the scrolling, the
  calls of \<^verbatim>\<open>uploadMediaToS3\<close> and \<^verbatim>\<open>fetchSmartReplies\<close>, and the rejection of an \<^verbatim>\<open>async\<close>
  function by an exception.
\<close>

datatype effect =
    Emit_chat_message message
  | Emit_read_receipt js_string js_string js_string
  | Socket_connect
  | Console_error "js_string list"
  | ScrollToBottom
  | UploadMedia js_file
  | FetchSmartReplies js_string
  | Rejected js_error

definition currentUser :: "chat_props \<Rightarrow> js_string" where
  "currentUser p = (if user_name (user p) \<noteq> [] then user_name (user p) else js ''anonymous'')"

subsection \<open>Incoming messages\<close>

text \<open>
  The handler of \<^verbatim>\<open>"chat message"\<close> up to its \<^verbatim>\<open>await\<close>: the request for smart replies is
  started with the text as it arrived, and \<open>on_chat_message_resume\<close> is the rest of the
  handler, run when the request completes.
\<close>

definition on_chat_message ::
    "('s, 'w) CryptoJS \<Rightarrow> chat_props \<Rightarrow> message \<Rightarrow> chat_state \<Rightarrow> chat_state \<times> effect list" where
  "on_chat_message L p msg s =
     (if groupId msg = Some (group_id (group p)) \<and> msg_id msg \<notin> processedMessages s then
        let s1 = s\<lparr>processedMessages := insert (msg_id msg) (processedMessages s)\<rparr>
        in case decryptMessage L (msg_text msg) of
             Inl err \<Rightarrow> (s1, [Rejected err])
           | Inr decryptedText \<Rightarrow>
               (s1\<lparr>messages := messages s1 @ [msg\<lparr>msg_text := decryptedText\<rparr>]\<rparr>,
                [ScrollToBottom, FetchSmartReplies (msg_text msg)])
      else (s, []))"

definition on_chat_message_resume :: "js_string list \<Rightarrow> chat_state \<Rightarrow> chat_state" where
  "on_chat_message_resume replies s = s\<lparr>smartReplies := replies\<rparr>"

text \<open>The events of the channel are handled one after the other, each to completion.\<close>

definition deliver_chat_messages ::
    "('s, 'w) CryptoJS \<Rightarrow> chat_props \<Rightarrow> message list \<Rightarrow> chat_state \<Rightarrow> chat_state" where
  "deliver_chat_messages L p msgs s = foldl (\<lambda>s' msg. fst (on_chat_message L p msg s')) s msgs"

subsection \<open>Typing signals\<close>

text \<open>
  The handler of \<^verbatim>\<open>"user typing"\<close>, run at time \<open>now\<close>; \<^verbatim>\<open>setTimeout(f, 3000)\<close> adds a
  callback due at \<open>now + 3000\<close>. Every callback scheduled by the view is
  \<^verbatim>\<open>() => setTypingUser("")\<close>.
\<close>

definition on_user_typing ::
    "chat_props \<Rightarrow> nat \<Rightarrow> js_string \<times> js_string \<Rightarrow> chat_state \<Rightarrow> chat_state" where
  "on_user_typing p now ev s =
     (case ev of (typing, gid) \<Rightarrow>
        if gid = group_id (group p) then
          s\<lparr>typingUser := typing, timers := timers s @ [now + 3000]\<rparr>
        else s)"

definition timeout_callback :: "chat_state \<Rightarrow> chat_state" where
  "timeout_callback s = s\<lparr>typingUser := []\<rparr>"

text \<open>The runtime runs, at time \<open>now\<close>, every pending callback that is due.\<close>

fun run_due :: "nat \<Rightarrow> nat list \<Rightarrow> chat_state \<Rightarrow> chat_state" where
  "run_due now [] s = s\<lparr>timers := []\<rparr>"
| "run_due now (d # ds) s =
     (if d \<le> now then run_due now ds (timeout_callback s)
      else (let s' = run_due now ds s in s'\<lparr>timers := d # timers s'\<rparr>))"

definition elapse :: "nat \<Rightarrow> chat_state \<Rightarrow> chat_state" where
  "elapse now s = run_due now (timers s) s"

subsection \<open>Read receipts\<close>

definition readBy_includes :: "message \<Rightarrow> js_string \<Rightarrow> bool" where
  "readBy_includes msg u = (case readBy msg of None \<Rightarrow> False | Some rs \<Rightarrow> u \<in> set rs)"

definition readBy_or_empty :: "message \<Rightarrow> js_string list" where
  "readBy_or_empty msg = (case readBy msg of None \<Rightarrow> [] | Some rs \<Rightarrow> rs)"

text \<open>The handler of \<^verbatim>\<open>"messageRead"\<close>; the event is (message id, reader, group id).\<close>

definition on_messageRead ::
    "chat_props \<Rightarrow> js_string \<times> js_string \<times> js_string \<Rightarrow> chat_state \<Rightarrow> chat_state" where
  "on_messageRead p ev s =
     (case ev of (messageId, readByUser, gid) \<Rightarrow>
        if gid = group_id (group p) then
          s\<lparr>messages :=
              map (\<lambda>msg. if msg_id msg = messageId \<and> \<not> readBy_includes msg readByUser
                          then msg\<lparr>readBy := Some (readBy_or_empty msg @ [readByUser])\<rparr>
                          else msg)
                  (messages s)\<rparr>
        else s)"

definition deliver_messageRead ::
    "chat_props \<Rightarrow> (js_string \<times> js_string \<times> js_string) list \<Rightarrow> chat_state \<Rightarrow> chat_state" where
  "deliver_messageRead p evs s = foldl (\<lambda>s' ev. on_messageRead p ev s') s evs"

text \<open>The effect that runs when the message log changes.\<close>

definition unreadMessages :: "chat_props \<Rightarrow> message list \<Rightarrow> message list" where
  "unreadMessages p msgs =
     filter (\<lambda>msg. (case msg_user msg of
                      None \<Rightarrow> False
                    | Some author \<Rightarrow> user_id author \<noteq> user_id (user p))
                   \<and> \<not> readBy_includes msg (currentUser p))
            msgs"

definition read_receipt_effect :: "chat_props \<Rightarrow> message list \<Rightarrow> effect list" where
  "read_receipt_effect p msgs =
     map (\<lambda>msg. Emit_read_receipt (msg_id msg) (currentUser p) (group_id (group p)))
         (unreadMessages p msgs)"

subsection \<open>Sending\<close>

text \<open>
  The HTTP endpoints that the view and the hook call. Each call either raises (the
  request rejects, the URL cannot be built, or the body is not what is destructured) or
  returns what is read of the response:
  \<^item> \<open>presigned_upload_url fileType token\<close>: the fields \<^verbatim>\<open>uploadURL\<close> and \<^verbatim>\<open>fileURL\<close> of the
    body, each \<open>None\<close> when the body has none;
  \<^item> \<open>put_file uploadURL file\<close>: the response to the \<^verbatim>\<open>PUT\<close>, of which \<^verbatim>\<open>ok\<close> and \<^verbatim>\<open>text()\<close>
    are read;
  \<^item> \<open>presigned_download_url key\<close>: the field \<^verbatim>\<open>signedUrl\<close> of the body.
\<close>

record put_response =
  resp_ok :: bool
  resp_text :: "js_error + js_string"

record network =
  presigned_upload_url ::
    "js_string \<Rightarrow> js_string \<Rightarrow> js_error + js_string option \<times> js_string option"
  put_file :: "js_string option \<Rightarrow> js_file \<Rightarrow> js_error + put_response"
  presigned_download_url :: "js_string \<Rightarrow> js_error + json_value"

text \<open>
  \<open>uploadMediaToS3\<close> returns the object \<^verbatim>\<open>{ url, type }\<close> or raises, and logs the body of a
  response that is not \<^verbatim>\<open>ok\<close> before it raises.
\<close>

definition uploadMediaToS3 ::
    "network \<Rightarrow> chat_props \<Rightarrow> js_file
       \<Rightarrow> (js_error + js_string option \<times> js_string) \<times> effect list" where
  "uploadMediaToS3 net p f =
     (case presigned_upload_url net (file_type f) (token p) of
        Inl err \<Rightarrow> (Inl err, [])
      | Inr (uploadURL, fileURL) \<Rightarrow>
          (case put_file net uploadURL f of
             Inl err \<Rightarrow> (Inl err, [])
           | Inr putResponse \<Rightarrow>
               if \<not> resp_ok putResponse then
                 (case resp_text putResponse of
                    Inl err \<Rightarrow> (Inl err, [])
                  | Inr errorText \<Rightarrow>
                      (Inl (Error (js ''Failed to upload media to S3'')),
                       [Console_error [js ''Upload failed:'', errorText]]))
               else (Inr (fileURL, file_type f), [])))"

text \<open>
  What \<^verbatim>\<open>sendMessage\<close> reads from its environment: \<^verbatim>\<open>socket.connected\<close> at the time of the
  test, the identifier built from \<^verbatim>\<open>Date.now()\<close> and \<^verbatim>\<open>Math.random()\<close>, the string of
  \<^verbatim>\<open>new Date().toLocaleTimeString()\<close>, and the salt the library draws.
\<close>

record 's send_env =
  socket_connected :: bool
  fresh_id :: js_string
  time_string :: js_string
  drawn_salt :: 's

text \<open>
  \<open>sendMessage\<close>, in the order of the source: the test of the trimmed text, the upload
  of the selected file, the encryption, the message, the test of the socket. An
  exception of the upload or of the encryption ends the function there.
\<close>

definition sendMessage ::
    "('s, 'w) CryptoJS \<Rightarrow> network \<Rightarrow> 's send_env \<Rightarrow> chat_props \<Rightarrow> js_string \<Rightarrow> chat_state
       \<Rightarrow> chat_state \<times> effect list" where
  "sendMessage L net env p messageText s =
     (if js_trim messageText \<noteq> [] then
        (let (upload, started) =
              (case file_st s of
                 None \<Rightarrow> (Inr (None, None), [])
               | Some f \<Rightarrow>
                   (case uploadMediaToS3 net p f of
                      (Inl err, logged) \<Rightarrow> (Inl err, UploadMedia f # logged)
                    | (Inr (url, type), logged) \<Rightarrow> (Inr (url, Some type), UploadMedia f # logged)))
         in case upload of
             Inl err \<Rightarrow> (s, started @ [Rejected err])
           | Inr (media_url, media_type) \<Rightarrow>
               (case encryptMessage L (drawn_salt env) messageText of
                  Inl err \<Rightarrow> (s, started @ [Rejected err])
                | Inr encryptedText \<Rightarrow>
                    let message =
                          \<lparr> msg_id = fresh_id env,
                            msg_user = Some \<lparr> user_id = user_id (user p),
                                              user_name = user_name (user p),
                                              user_email = user_email (user p) \<rparr>,
                            msg_text = encryptedText,
                            msg_time = time_string env,
                            mediaUrl = media_url,
                            mediaType = media_type,
                            readBy = None,
                            groupId = Some (group_id (group p)) \<rparr>
                    in if socket_connected env then
                         (s\<lparr>messages := messages s @ [message\<lparr>msg_text := messageText\<rparr>],
                            processedMessages := insert (msg_id message) (processedMessages s),
                            newMessage := [],
                            file_st := None,
                            smartReplies := []\<rparr>,
                          started @ [Emit_chat_message message, ScrollToBottom])
                       else
                         (s, started @ [Console_error [js ''Socket not connected. Reconnecting...''],
                                        Socket_connect])))
      else (s, []))"

section \<open>Signed media links (hook useSignedURLs)\<close>








text \<open>The argument of the hook in \<^verbatim>\<open>Chat\<close>.\<close>

definition mediaUrls_of :: "message list \<Rightarrow> js_string option list" where
  "mediaUrls_of msgs = map mediaUrl msgs"

section \<open>Notions used to state the properties\<close>

text \<open>\<open>first_by key xs\<close> keeps, of the elements of \<open>xs\<close> with the same key, the first one.\<close>

fun first_by :: "('a \<Rightarrow> 'k) \<Rightarrow> 'a list \<Rightarrow> 'a list" where
  "first_by key [] = []"
| "first_by key (x # xs) = x # first_by key (filter (\<lambda>y. key y \<noteq> key x) xs)"

text \<open>The set of readers of a message.\<close>

definition readers :: "message \<Rightarrow> js_string set" where
  "readers msg = set (readBy_or_empty msg)"

text \<open>Values on which the definitions are evaluated.\<close>

definition example_user :: "string \<Rightarrow> string \<Rightarrow> user" where
  "example_user i n = \<lparr> user_id = js i, user_name = js n, user_email = [] \<rparr>"

definition example_message :: "string \<Rightarrow> user \<Rightarrow> string \<Rightarrow> string \<Rightarrow> message" where
  "example_message i author t g =
     \<lparr> msg_id = js i, msg_user = Some author, msg_text = js t, msg_time = js ''10:00:00'',
       mediaUrl = None, mediaType = None, readBy = None, groupId = Some (js g) \<rparr>"

definition example_props :: "string \<Rightarrow> user \<Rightarrow> chat_props" where
  "example_props g u = \<lparr> group = \<lparr> group_id = js g, group_name = js g \<rparr>, user = u, token = [] \<rparr>"

definition unreachable_network :: network where
  "unreachable_network =
     \<lparr> presigned_upload_url = (\<lambda>fileType tok. Inl (Error (js ''Failed to fetch''))),
       put_file = (\<lambda>uploadURL f. Inl (Error (js ''Failed to fetch''))),
       presigned_download_url = (\<lambda>key. Inl (Error (js ''Failed to fetch''))) \<rparr>"

definition example_env :: "bool \<Rightarrow> unit send_env" where
  "example_env connected =
     \<lparr> socket_connected = connected, fresh_id = js ''1700000000000-k3j9x0q1z'',
       time_string = js ''10:00:01'', drawn_salt = () \<rparr>"

definition example_file :: js_file where
  "example_file = \<lparr> file_name = js ''cat.png'', file_type = js ''image/png'' \<rparr>"

text \<open>
  A network on which every request succeeds, but the request of a signed link for the
  key \<^verbatim>\<open>m/broken.png\<close>, which raises.
\<close>

definition example_network :: network where
  "example_network =
     \<lparr> presigned_upload_url =
         (\<lambda>fileType tok. Inr (Some (js ''https://up''), Some (js ''https://b.s3/m/new.png''))),
       put_file = (\<lambda>uploadURL f. Inr \<lparr> resp_ok = True, resp_text = Inr [] \<rparr>),
       presigned_download_url =
         (\<lambda>key. if key = js ''m/broken.png'' then Inl (Error (js ''Failed to fetch''))
                 else Inr (Str (js ''signed:'' @ key))) \<rparr>"

text \<open>A network on which the storage answers the \<^verbatim>\<open>PUT\<close> with a response that is not \<^verbatim>\<open>ok\<close>.\<close>

definition refusing_network :: network where
  "refusing_network =
     example_network
       \<lparr> put_file := (\<lambda>uploadURL f. Inr \<lparr> resp_ok = False, resp_text = Inr (js ''AccessDenied'') \<rparr>) \<rparr>"

section \<open>Properties\<close>

subsection \<open>Codec\<close>

lemma startsWith_ENC_append: "startsWith (js ''ENC:'' @ c) (js ''ENC:'')"
  by (simp add: startsWith_def js_def)

lemma slice_ENC_append: "slice_from 4 (js ''ENC:'' @ c) = c"
  by (simp add: slice_from_def js_def)

lemma decryptMessage_returns: "\<exists>out. decryptMessage L cipher = Inr out"
  by (simp add: decryptMessage_def split: sum.splits)

text \<open>
  Claim C3. \<open>decryptMessage\<close> never raises, whatever the library does: it always returns
  a string. An input that does not start with \<^verbatim>\<open>ENC:\<close> is returned unchanged. An input
  that starts with \<^verbatim>\<open>ENC:\<close> is returned unchanged when the decryption raises, when the
  bytes are not UTF-8, and when the recovered text is empty.
\<close>

theorem decryptMessage_total_fail_open:
  fixes L :: "('s, 'w) CryptoJS"
  shows "(\<exists>out. decryptMessage L cipher = Inr out)
    \<and> (\<not> startsWith cipher (js ''ENC:'') \<longrightarrow> decryptMessage L cipher = Inr cipher)
    \<and> (startsWith cipher (js ''ENC:'') \<longrightarrow>
         (\<forall>err. AES_decrypt L (slice_from 4 cipher) AES_KEY = Inl err
                \<longrightarrow> decryptMessage L cipher = Inr cipher)
       \<and> (\<forall>bytes err. AES_decrypt L (slice_from 4 cipher) AES_KEY = Inr bytes
                \<and> enc_Utf8 L bytes = Inl err
                \<longrightarrow> decryptMessage L cipher = Inr cipher)
       \<and> (\<forall>bytes. AES_decrypt L (slice_from 4 cipher) AES_KEY = Inr bytes
                \<and> enc_Utf8 L bytes = Inr []
                \<longrightarrow> decryptMessage L cipher = Inr cipher))"
  by (auto simp add: decryptMessage_def decryptMessage_try_def split: sum.splits)

theorem decryptMessage_total_fail_open_witness:
  "\<not> startsWith (js ''plain text with no tag'') (js ''ENC:'')
   \<and> decryptMessage reversing_CryptoJS (js ''plain text with no tag'')
       = Inr (js ''plain text with no tag'')
   \<and> startsWith (js ''ENC:'') (js ''ENC:'')
   \<and> AES_decrypt reversing_CryptoJS (slice_from 4 (js ''ENC:'')) AES_KEY = Inr []
   \<and> enc_Utf8 reversing_CryptoJS [] = Inr []
   \<and> decryptMessage reversing_CryptoJS (js ''ENC:'') = Inr (js ''ENC:'')"
proof -
  have untagged: "\<not> startsWith (js ''plain text with no tag'') (js ''ENC:'')"
    by (simp add: startsWith_def js_def)
  have tagged: "startsWith (js ''ENC:'') (js ''ENC:'')"
    by (simp add: startsWith_def)
  have dec: "AES_decrypt reversing_CryptoJS (slice_from 4 (js ''ENC:'')) AES_KEY = Inr []"
    by (simp add: reversing_CryptoJS_def slice_from_def js_def)
  have utf: "enc_Utf8 reversing_CryptoJS [] = Inr []"
    by (simp add: reversing_CryptoJS_def)
  from decryptMessage_total_fail_open [of reversing_CryptoJS "js ''plain text with no tag''"]
    untagged
  have a: "decryptMessage reversing_CryptoJS (js ''plain text with no tag'')
             = Inr (js ''plain text with no tag'')"
    by blast
  from decryptMessage_total_fail_open [of reversing_CryptoJS "js ''ENC:''"] tagged dec utf
  have b: "decryptMessage reversing_CryptoJS (js ''ENC:'') = Inr (js ''ENC:'')"
    by blast
  from untagged tagged dec utf a b show ?thesis by blast
qed

text \<open>
  Claim C2, as stated: \<open>decryptMessage (encryptMessage x) = x\<close> for every text, the empty
  string included. It fails at the empty string: the recovered text is empty, which
  \<open>decryptMessage\<close> takes for a failed decryption, and the tagged cipher text comes back.
\<close>

theorem roundtrip_empty_counterexample:
  "encryptMessage reversing_CryptoJS () [] = Inr (js ''ENC:'')
   \<and> decryptMessage reversing_CryptoJS (js ''ENC:'') \<noteq> Inr []"
  by (simp add: decryptMessage_def decryptMessage_try_def encryptMessage_def
      reversing_CryptoJS_def startsWith_def slice_from_def js_def)

text \<open>
  Claim C2, amended. For a text \<open>x\<close> that the library encrypts and decrypts back to \<open>x\<close>:
  \<open>encryptMessage x\<close> is the tagged cipher text; when \<open>x\<close> is not empty,
  \<open>decryptMessage\<close> of it is \<open>x\<close>, also when \<open>x\<close> itself starts with \<^verbatim>\<open>ENC:\<close>; when \<open>x\<close> is
  empty, \<open>decryptMessage\<close> of it is the tagged cipher text.
\<close>

theorem decrypt_encrypt_roundtrip:
  fixes L :: "('s, 'w) CryptoJS"
  assumes "AES_encrypt L r x AES_KEY = Inr c"
      and "AES_decrypt L c AES_KEY = Inr bytes"
      and "enc_Utf8 L bytes = Inr x"
  shows "encryptMessage L r x = Inr (js ''ENC:'' @ c)
    \<and> decryptMessage L (js ''ENC:'' @ c) = Inr (if x = [] then js ''ENC:'' @ c else x)"
  using assms
  by (simp add: decryptMessage_def decryptMessage_try_def encryptMessage_def
      startsWith_ENC_append slice_ENC_append)

theorem decrypt_encrypt_roundtrip_witness:
  "AES_encrypt reversing_CryptoJS () (js ''ENC:hi'') AES_KEY = Inr (rev (js ''ENC:hi''))
   \<and> AES_decrypt reversing_CryptoJS (rev (js ''ENC:hi'')) AES_KEY = Inr (js ''ENC:hi'')
   \<and> enc_Utf8 reversing_CryptoJS (js ''ENC:hi'') = Inr (js ''ENC:hi'')
   \<and> encryptMessage reversing_CryptoJS () (js ''ENC:hi'') = Inr (js ''ENC:'' @ rev (js ''ENC:hi''))
   \<and> decryptMessage reversing_CryptoJS (js ''ENC:'' @ rev (js ''ENC:hi'')) = Inr (js ''ENC:hi'')"
proof -
  have e: "AES_encrypt reversing_CryptoJS () (js ''ENC:hi'') AES_KEY = Inr (rev (js ''ENC:hi''))"
    by (simp add: reversing_CryptoJS_def js_def is_high_surrogate_def is_low_surrogate_def)
  have d: "AES_decrypt reversing_CryptoJS (rev (js ''ENC:hi'')) AES_KEY = Inr (js ''ENC:hi'')"
    by (simp add: reversing_CryptoJS_def)
  have u: "enc_Utf8 reversing_CryptoJS (js ''ENC:hi'') = Inr (js ''ENC:hi'')"
    by (simp add: reversing_CryptoJS_def)
  have ne: "js ''ENC:hi'' \<noteq> []"
    by (simp add: js_def)
  from decrypt_encrypt_roundtrip [OF e d u] ne e d u show ?thesis by simp
qed

subsection \<open>Incoming messages are deduplicated\<close>

lemma on_chat_message_duplicate:
  "msg_id msg \<in> processedMessages s \<Longrightarrow> on_chat_message L p msg s = (s, [])"
  by (simp add: on_chat_message_def)

lemma on_chat_message_fresh:
  assumes "groupId msg = Some (group_id (group p))" and "msg_id msg \<notin> processedMessages s"
  shows "fst (on_chat_message L p msg s) =
           s\<lparr>processedMessages := insert (msg_id msg) (processedMessages s),
             messages := messages s @ [msg\<lparr>msg_text := projr (decryptMessage L (msg_text msg))\<rparr>]\<rparr>"
proof -
  obtain out where "decryptMessage L (msg_text msg) = Inr out"
    using decryptMessage_returns by blast
  with assms show ?thesis
    by (simp add: on_chat_message_def)
qed

lemma deliver_Cons:
  "deliver_chat_messages L p (msg # msgs) s =
     deliver_chat_messages L p msgs (fst (on_chat_message L p msg s))"
  by (simp add: deliver_chat_messages_def)

text \<open>
  From any state, the log grows by the first arrival of every identifier that is new,
  in the order of arrival.
\<close>

lemma deliver_messages:
  "messages (deliver_chat_messages L p es s) =
     messages s @
     map (\<lambda>m. m\<lparr>msg_text := projr (decryptMessage L (msg_text m))\<rparr>)
       (first_by msg_id
          (filter (\<lambda>m. groupId m = Some (group_id (group p)) \<and> msg_id m \<notin> processedMessages s) es))"
proof (induction es arbitrary: s)
  case Nil
  show ?case by (simp add: deliver_chat_messages_def)
next
  case (Cons e es)
  show ?case
  proof (cases "groupId e = Some (group_id (group p)) \<and> msg_id e \<notin> processedMessages s")
    case False
    then have "on_chat_message L p e s = (s, [])"
      by (auto simp add: on_chat_message_def)
    moreover have
      "filter (\<lambda>m. groupId m = Some (group_id (group p)) \<and> msg_id m \<notin> processedMessages s) (e # es)
        = filter (\<lambda>m. groupId m = Some (group_id (group p)) \<and> msg_id m \<notin> processedMessages s) es"
      using False by simp
    ultimately show ?thesis
      using Cons.IH [of s] by (simp only: deliver_Cons fst_conv)
  next
    case True
    let ?s1 = "fst (on_chat_message L p e s)"
    have s1: "?s1 = s\<lparr>processedMessages := insert (msg_id e) (processedMessages s),
             messages := messages s @ [e\<lparr>msg_text := projr (decryptMessage L (msg_text e))\<rparr>]\<rparr>"
      using True by (simp add: on_chat_message_fresh)
    have flt: "filter (\<lambda>y. msg_id y \<noteq> msg_id e)
                 (filter (\<lambda>m. groupId m = Some (group_id (group p))
                               \<and> msg_id m \<notin> processedMessages s) es)
               = filter (\<lambda>m. groupId m = Some (group_id (group p))
                               \<and> msg_id m \<notin> processedMessages ?s1) es"
      unfolding s1 by (auto intro: filter_cong)
    show ?thesis
      using True Cons.IH [of ?s1] flt
      by (simp add: deliver_Cons s1)
  qed
qed

lemma deliver_processed:
  "processedMessages (deliver_chat_messages L p es s) =
     processedMessages s
     \<union> set (map msg_id (filter (\<lambda>m. groupId m = Some (group_id (group p))) es))"
proof (induction es arbitrary: s)
  case Nil
  show ?case by (simp add: deliver_chat_messages_def)
next
  case (Cons e es)
  show ?case
  proof (cases "groupId e = Some (group_id (group p)) \<and> msg_id e \<notin> processedMessages s")
    case True
    then show ?thesis
      using Cons.IH [of "fst (on_chat_message L p e s)"]
      by (auto simp add: deliver_Cons on_chat_message_fresh)
  next
    case False
    then have "on_chat_message L p e s = (s, [])"
      by (auto simp add: on_chat_message_def)
    with False show ?thesis
      using Cons.IH [of s] by (auto simp add: deliver_Cons)
  qed
qed

lemma set_first_by: "set (first_by key xs) \<subseteq> set xs"
  by (induction key xs rule: first_by.induct) auto

lemma distinct_first_by: "distinct (map key (first_by key xs))"
proof (induction key xs rule: first_by.induct)
  case (1 key)
  show ?case by simp
next
  case (2 key x xs)
  have "key x \<notin> key ` set (first_by key (filter (\<lambda>y. key y \<noteq> key x) xs))"
    using set_first_by [of key "filter (\<lambda>y. key y \<noteq> key x) xs"] by auto
  with 2 show ?case by simp
qed

lemma distinct_first_by_self: "distinct (first_by (\<lambda>k. k) xs)"
  using distinct_first_by [of "\<lambda>k. k" xs] by simp

lemma map_first_by: "map key (first_by key xs) = first_by (\<lambda>k. k) (map key xs)"
  by (induction key xs rule: first_by.induct) (simp_all add: filter_map comp_def)

text \<open>
  Claim C1. A \<^verbatim>\<open>"chat message"\<close> event whose identifier is already in the processed set
  changes nothing. After any sequence of events delivered to a new view, the
  identifiers of the log are those of the events of the active group, each once, in the
  order of their first arrival; the identifiers of the log are distinct, and every entry
  is the first arrival of its identifier with its text decoded.
\<close>

theorem chat_message_dedup:
  fixes L :: "('s, 'w) CryptoJS"
  shows "(\<forall>msg s. msg_id msg \<in> processedMessages s \<longrightarrow> on_chat_message L p msg s = (s, []))
    \<and> map msg_id (messages (deliver_chat_messages L p es initial_state))
        = first_by (\<lambda>k. k) (map msg_id (filter (\<lambda>m. groupId m = Some (group_id (group p))) es))
    \<and> distinct (map msg_id (messages (deliver_chat_messages L p es initial_state)))
    \<and> list_all2 (\<lambda>entry m. \<exists>t. decryptMessage L (msg_text m) = Inr t \<and> entry = m\<lparr>msg_text := t\<rparr>)
        (messages (deliver_chat_messages L p es initial_state))
        (first_by msg_id (filter (\<lambda>m. groupId m = Some (group_id (group p))) es))"
proof -
  let ?arrivals = "filter (\<lambda>m. groupId m = Some (group_id (group p))) es"
  let ?dec = "\<lambda>m. m\<lparr>msg_text := projr (decryptMessage L (msg_text m))\<rparr>"
  have log: "messages (deliver_chat_messages L p es initial_state)
               = map ?dec (first_by msg_id ?arrivals)"
    using deliver_messages [of L p es initial_state] by (simp add: initial_state_def)
  have ids: "map msg_id (map ?dec (first_by msg_id ?arrivals))
               = map msg_id (first_by msg_id ?arrivals)"
    by (simp add: comp_def)
  have rel: "list_all2
               (\<lambda>entry m. \<exists>t. decryptMessage L (msg_text m) = Inr t \<and> entry = m\<lparr>msg_text := t\<rparr>)
               (map ?dec xs) xs" for xs :: "message list"
  proof (induction xs)
    case Nil
    show ?case by simp
  next
    case (Cons x xs)
    obtain t where "decryptMessage L (msg_text x) = Inr t"
      using decryptMessage_returns by blast
    with Cons show ?case by simp
  qed
  show ?thesis
    unfolding log ids
    by (simp add: on_chat_message_duplicate map_first_by distinct_first_by_self rel)
qed

theorem chat_message_dedup_witness:
  "msg_id (example_message ''a'' (example_user ''u2'' ''bob'') ''again'' ''g1'')
     \<in> processedMessages
         (deliver_chat_messages reversing_CryptoJS
            (example_props ''g1'' (example_user ''u1'' ''ann''))
            [example_message ''a'' (example_user ''u2'' ''bob'') ''hello'' ''g1'',
             example_message ''b'' (example_user ''u2'' ''bob'') ''world'' ''g1''] initial_state)
   \<and> map msg_id (messages
         (deliver_chat_messages reversing_CryptoJS
            (example_props ''g1'' (example_user ''u1'' ''ann''))
            [example_message ''a'' (example_user ''u2'' ''bob'') ''hello'' ''g1'',
             example_message ''b'' (example_user ''u2'' ''bob'') ''world'' ''g1'',
             example_message ''a'' (example_user ''u2'' ''bob'') ''again'' ''g1''] initial_state))
       = [js ''a'', js ''b'']"
proof -
  let ?p = "example_props ''g1'' (example_user ''u1'' ''ann'')"
  let ?a = "example_message ''a'' (example_user ''u2'' ''bob'') ''hello'' ''g1''"
  let ?b = "example_message ''b'' (example_user ''u2'' ''bob'') ''world'' ''g1''"
  let ?a' = "example_message ''a'' (example_user ''u2'' ''bob'') ''again'' ''g1''"
  let ?s = "deliver_chat_messages reversing_CryptoJS ?p [?a, ?b] initial_state"
  have seen: "msg_id ?a' \<in> processedMessages ?s"
    by (simp add: deliver_processed example_message_def example_props_def initial_state_def)
  have "deliver_chat_messages reversing_CryptoJS ?p [?a, ?b, ?a'] initial_state
          = fst (on_chat_message reversing_CryptoJS ?p ?a' ?s)"
    by (simp add: deliver_chat_messages_def)
  also have "\<dots> = ?s"
    using chat_message_dedup [of reversing_CryptoJS ?p "[?a, ?b]"] seen by simp
  finally have same:
    "deliver_chat_messages reversing_CryptoJS ?p [?a, ?b, ?a'] initial_state = ?s" .
  have "map msg_id (messages ?s) = [js ''a'', js ''b'']"
    using chat_message_dedup [of reversing_CryptoJS ?p "[?a, ?b]"]
    by (simp add: example_message_def example_props_def js_def)
  with seen same show ?thesis by simp
qed

subsection \<open>Read receipts\<close>

lemma readBy_includes_readers: "readBy_includes msg u \<longleftrightarrow> u \<in> readers msg"
  by (simp add: readBy_includes_def readers_def readBy_or_empty_def split: option.splits)


lemma on_messageRead_step:
  "list_all2 (\<lambda>before after. after\<lparr>readBy := readBy before\<rparr> = before
                \<and> readers before \<subseteq> readers after
                \<and> (r \<in> readers before \<longrightarrow> after = before))
     (messages s) (messages (on_messageRead p (mid, r, gid) s))"
  by (auto simp add: on_messageRead_def list_all2_map2 readBy_includes_readers
      readers_def readBy_or_empty_def intro!: list_all2_refl)

lemma on_messageRead_frame:
  "(on_messageRead p ev s)\<lparr>messages := messages s\<rparr> = s"
  by (cases ev) (simp add: on_messageRead_def)

lemma on_messageRead_twice:
  "on_messageRead p ev (on_messageRead p ev s) = on_messageRead p ev s"
  by (cases ev) (auto simp add: on_messageRead_def readBy_includes_def readBy_or_empty_def
      split: option.splits)

lemma deliver_messageRead_monotonic:
  "list_all2 (\<lambda>before after. after\<lparr>readBy := readBy before\<rparr> = before
                \<and> readers before \<subseteq> readers after)
     (messages s) (messages (deliver_messageRead p evs s))"
proof (induction evs arbitrary: s)
  case Nil
  show ?case by (simp add: deliver_messageRead_def list_all2_refl)
next
  case (Cons ev evs)
  obtain mid r gid where ev: "ev = (mid, r, gid)" by (cases ev)
  let ?s1 = "on_messageRead p ev s"
  have one: "list_all2 (\<lambda>before after. after\<lparr>readBy := readBy before\<rparr> = before
                \<and> readers before \<subseteq> readers after) (messages s) (messages ?s1)"
    using on_messageRead_step [of r s p mid gid] unfolding ev
    by (rule list_all2_mono) simp
  have rest: "list_all2 (\<lambda>before after. after\<lparr>readBy := readBy before\<rparr> = before
                \<and> readers before \<subseteq> readers after)
                (messages ?s1) (messages (deliver_messageRead p evs ?s1))"
    by (rule Cons.IH)
  have "list_all2 (\<lambda>before after. after\<lparr>readBy := readBy before\<rparr> = before
                \<and> readers before \<subseteq> readers after)
          (messages s) (messages (deliver_messageRead p evs ?s1))"
    using one rest
  proof (rule list_all2_trans [rotated])
    fix a b c :: message
    assume "b\<lparr>readBy := readBy a\<rparr> = a \<and> readers a \<subseteq> readers b"
      and "c\<lparr>readBy := readBy b\<rparr> = b \<and> readers b \<subseteq> readers c"
    then show "c\<lparr>readBy := readBy a\<rparr> = a \<and> readers a \<subseteq> readers c"
      by (cases a, cases b, cases c) auto
  qed
  then show ?case by (simp add: deliver_messageRead_def)
qed


text \<open>
  Claim C6. The handler of \<^verbatim>\<open>"messageRead"\<close> keeps every message in place and changes at
  most its read-by list: every reader stays, a message that already has the reader is
  unchanged, and applying the same update twice is applying it once. Nothing else in the
  state changes, and after any sequence of updates every message still has its other
  fields and all the readers it had.
\<close>

theorem messageRead_idempotent_monotonic:
  "list_all2 (\<lambda>before after. after\<lparr>readBy := readBy before\<rparr> = before
                \<and> readers before \<subseteq> readers after
                \<and> (r \<in> readers before \<longrightarrow> after = before))
     (messages s) (messages (on_messageRead p (mid, r, gid) s))
   \<and> on_messageRead p (mid, r, gid) (on_messageRead p (mid, r, gid) s)
       = on_messageRead p (mid, r, gid) s
   \<and> (on_messageRead p (mid, r, gid) s)\<lparr>messages := messages s\<rparr> = s
   \<and> list_all2 (\<lambda>before after. after\<lparr>readBy := readBy before\<rparr> = before
                \<and> readers before \<subseteq> readers after)
       (messages s) (messages (deliver_messageRead p evs s))"
  using on_messageRead_step on_messageRead_twice on_messageRead_frame
    deliver_messageRead_monotonic
  by simp

theorem messageRead_idempotent_monotonic_witness:
  "js ''ann'' \<in> readers ((example_message ''a'' (example_user ''u2'' ''bob'') ''hello'' ''g1'')
                            \<lparr>readBy := Some [js ''ann'']\<rparr>)
   \<and> messages (on_messageRead (example_props ''g1'' (example_user ''u1'' ''ann''))
                 (js ''a'', js ''ann'', js ''g1'')
                 (initial_state\<lparr>messages :=
                    [(example_message ''a'' (example_user ''u2'' ''bob'') ''hello'' ''g1'')
                       \<lparr>readBy := Some [js ''ann'']\<rparr>]\<rparr>))
       = [(example_message ''a'' (example_user ''u2'' ''bob'') ''hello'' ''g1'')
            \<lparr>readBy := Some [js ''ann'']\<rparr>]"
proof -
  let ?m = "(example_message ''a'' (example_user ''u2'' ''bob'') ''hello'' ''g1'')
              \<lparr>readBy := Some [js ''ann'']\<rparr>"
  let ?p = "example_props ''g1'' (example_user ''u1'' ''ann'')"
  have present: "js ''ann'' \<in> readers ?m"
    by (simp add: readers_def readBy_or_empty_def)
  have log: "messages (initial_state\<lparr>messages := [?m]\<rparr>) = [?m]"
    by simp
  from messageRead_idempotent_monotonic
         [where r = "js ''ann''" and s = "initial_state\<lparr>messages := [?m]\<rparr>" and p = ?p
            and mid = "js ''a''" and gid = "js ''g1''" and evs = "[]"]
  obtain after where
    "messages (on_messageRead ?p (js ''a'', js ''ann'', js ''g1'')
       (initial_state\<lparr>messages := [?m]\<rparr>)) = [after]"
    and "js ''ann'' \<in> readers ?m \<longrightarrow> after = ?m"
    unfolding log by (auto simp add: list_all2_Cons1)
  with present show ?thesis by simp
qed

lemma unreadMessages_iff:
  "m \<in> set (unreadMessages p msgs) \<longleftrightarrow>
     m \<in> set msgs
     \<and> (\<exists>author. msg_user m = Some author \<and> user_id author \<noteq> user_id (user p))
     \<and> currentUser p \<notin> readers m"
  by (auto simp add: unreadMessages_def readBy_includes_readers split: option.splits)

text \<open>
  Claim C7. The effect that emits read receipts leaves out every message whose author is
  the current user: each receipt it emits names the current user and a message of the
  log written by another user that the current user is not yet a reader of, one receipt
  for each such message; an identifier that only own messages carry is never named.
\<close>

theorem read_receipt_self_exclusion:
  "(\<forall>m \<in> set msgs. (\<exists>author. msg_user m = Some author \<and> user_id author = user_id (user p))
        \<longrightarrow> m \<notin> set (unreadMessages p msgs))
   \<and> (\<forall>e \<in> set (read_receipt_effect p msgs).
         \<exists>m \<in> set msgs.
           e = Emit_read_receipt (msg_id m) (currentUser p) (group_id (group p))
           \<and> (\<exists>author. msg_user m = Some author \<and> user_id author \<noteq> user_id (user p))
           \<and> currentUser p \<notin> readers m)
   \<and> (\<forall>i. (\<forall>m \<in> set msgs. msg_id m = i \<longrightarrow>
                (\<exists>author. msg_user m = Some author \<and> user_id author = user_id (user p)))
         \<longrightarrow> (\<forall>reader gid. Emit_read_receipt i reader gid \<notin> set (read_receipt_effect p msgs)))
   \<and> length (read_receipt_effect p msgs) = length (unreadMessages p msgs)"
proof -
  have own: "\<forall>m \<in> set msgs. (\<exists>author. msg_user m = Some author \<and> user_id author = user_id (user p))
        \<longrightarrow> m \<notin> set (unreadMessages p msgs)"
    by (auto simp add: unreadMessages_iff)
  have emitted: "\<forall>e \<in> set (read_receipt_effect p msgs).
         \<exists>m \<in> set msgs.
           e = Emit_read_receipt (msg_id m) (currentUser p) (group_id (group p))
           \<and> (\<exists>author. msg_user m = Some author \<and> user_id author \<noteq> user_id (user p))
           \<and> currentUser p \<notin> readers m"
    unfolding read_receipt_effect_def using unreadMessages_iff [of _ p msgs] by auto
  have none: "\<forall>i. (\<forall>m \<in> set msgs. msg_id m = i \<longrightarrow>
                (\<exists>author. msg_user m = Some author \<and> user_id author = user_id (user p)))
         \<longrightarrow> (\<forall>reader gid. Emit_read_receipt i reader gid \<notin> set (read_receipt_effect p msgs))"
    using emitted by fastforce
  show ?thesis
    using own emitted none by (simp add: read_receipt_effect_def)
qed

theorem read_receipt_self_exclusion_witness:
  "read_receipt_effect (example_props ''g1'' (example_user ''u1'' ''ann''))
     [example_message ''a'' (example_user ''u1'' ''ann'') ''mine'' ''g1'',
      example_message ''b'' (example_user ''u2'' ''bob'') ''yours'' ''g1'']
   = [Emit_read_receipt (js ''b'') (js ''ann'') (js ''g1'')]
   \<and> Emit_read_receipt (js ''a'') (js ''ann'') (js ''g1'')
       \<notin> set (read_receipt_effect (example_props ''g1'' (example_user ''u1'' ''ann''))
                [example_message ''a'' (example_user ''u1'' ''ann'') ''mine'' ''g1'',
                 example_message ''b'' (example_user ''u2'' ''bob'') ''yours'' ''g1''])"
proof -
  let ?p = "example_props ''g1'' (example_user ''u1'' ''ann'')"
  let ?a = "example_message ''a'' (example_user ''u1'' ''ann'') ''mine'' ''g1''"
  let ?b = "example_message ''b'' (example_user ''u2'' ''bob'') ''yours'' ''g1''"
  have own: "\<forall>m \<in> set [?a, ?b]. msg_id m = js ''a'' \<longrightarrow>
               (\<exists>author. msg_user m = Some author \<and> user_id author = user_id (user ?p))"
    by (simp add: example_message_def example_props_def example_user_def js_def)
  have eval: "read_receipt_effect ?p [?a, ?b] = [Emit_read_receipt (js ''b'') (js ''ann'') (js ''g1'')]"
    by (simp add: read_receipt_effect_def unreadMessages_def example_message_def
        example_props_def example_user_def currentUser_def readBy_includes_def js_def)
  from read_receipt_self_exclusion [where msgs = "[?a, ?b]" and p = ?p] own
  have "Emit_read_receipt (js ''a'') (js ''ann'') (js ''g1'') \<notin> set (read_receipt_effect ?p [?a, ?b])"
    by blast
  with eval show ?thesis by simp
qed

subsection \<open>Sending\<close>

lemma js_trim_empty_iff: "js_trim t = [] \<longleftrightarrow> (\<forall>c \<in> set t. is_js_whitespace c)"
proof
  assume "js_trim t = []"
  then have all: "\<forall>c \<in> set (dropWhile is_js_whitespace t). is_js_whitespace c"
    by (simp add: js_trim_def)
  have "dropWhile is_js_whitespace t = []"
  proof (rule ccontr)
    assume ne: "dropWhile is_js_whitespace t \<noteq> []"
    then have "\<not> is_js_whitespace (hd (dropWhile is_js_whitespace t))"
      by (rule hd_dropWhile)
    moreover have "hd (dropWhile is_js_whitespace t) \<in> set (dropWhile is_js_whitespace t)"
      using ne by simp
    ultimately show False using all by blast
  qed
  then show "\<forall>c \<in> set t. is_js_whitespace c"
    by simp
next
  assume "\<forall>c \<in> set t. is_js_whitespace c"
  then have d: "dropWhile is_js_whitespace t = []"
    by simp
  show "js_trim t = []"
    unfolding js_trim_def d by simp
qed

text \<open>
  Claim C10. Called with a text that is empty or made of white space only, \<open>sendMessage\<close>
  emits nothing, starts no upload and no other request, and returns the state it was
  given: log, processed identifiers, input field, selected file and suggestions.
\<close>

theorem sendMessage_blank_noop:
  fixes L :: "('s, 'w) CryptoJS"
  assumes "\<forall>c \<in> set messageText. is_js_whitespace c"
  shows "sendMessage L net env p messageText s = (s, [])"
  using assms by (simp add: sendMessage_def js_trim_empty_iff)

theorem sendMessage_blank_noop_witness:
  "list_all is_js_whitespace [0x20, 0x09, 0x3000]
   \<and> sendMessage reversing_CryptoJS unreachable_network (example_env True)
        (example_props ''g1'' (example_user ''u1'' ''ann'')) [0x20, 0x09, 0x3000]
        (initial_state\<lparr>newMessage := [0x20, 0x09, 0x3000], file_st := Some example_file\<rparr>)
      = (initial_state\<lparr>newMessage := [0x20, 0x09, 0x3000], file_st := Some example_file\<rparr>, [])"
proof -
  have blank: "\<forall>c \<in> set [0x20, 0x09, 0x3000]. is_js_whitespace c"
    by (simp add: is_js_whitespace_def)
  from sendMessage_blank_noop [OF blank] blank show ?thesis
    by (simp add: list_all_iff)
qed

text \<open>
  Claim C8, as stated: every send of a non-blank text while the socket is not connected
  triggers a reconnection. It fails when a file is selected and its upload raises: the
  upload runs before the socket is tested, and its exception ends \<open>sendMessage\<close>.
\<close>

theorem sendMessage_disconnected_upload_fails_counterexample:
  "js_trim (js ''hi'') \<noteq> []
   \<and> \<not> socket_connected (example_env False)
   \<and> Socket_connect \<notin> set (snd (sendMessage reversing_CryptoJS unreachable_network (example_env False)
        (example_props ''g1'' (example_user ''u1'' ''ann'')) (js ''hi'')
        (initial_state\<lparr>newMessage := js ''hi'', file_st := Some example_file\<rparr>)))"
  by (simp add: sendMessage_def uploadMediaToS3_def unreachable_network_def example_env_def
      js_trim_def is_js_whitespace_def js_def)

text \<open>
  Claim C8, amended. A call of \<open>sendMessage\<close> with a non-blank text that finds the socket
  not connected, or ends before the socket is tested, leaves the state unchanged and
  emits nothing on the channel. When no file is selected or the selected file uploads,
  and the text encrypts, the error is logged and \<^verbatim>\<open>socket.connect()\<close> is called. When the
  upload of the selected file raises, or the encryption raises, the call ends with that
  exception before the socket is tested, and no reconnection is triggered.
\<close>

theorem sendMessage_disconnected:
  fixes L :: "('s, 'w) CryptoJS"
  assumes "js_trim messageText \<noteq> []" and "\<not> socket_connected env"
  shows "fst (sendMessage L net env p messageText s) = s
    \<and> (\<forall>c. file_st s = None \<and> AES_encrypt L (drawn_salt env) messageText AES_KEY = Inr c \<longrightarrow>
            sendMessage L net env p messageText s
              = (s, [Console_error [js ''Socket not connected. Reconnecting...''], Socket_connect]))
    \<and> (\<forall>f r logged c. file_st s = Some f \<and> uploadMediaToS3 net p f = (Inr r, logged)
            \<and> AES_encrypt L (drawn_salt env) messageText AES_KEY = Inr c \<longrightarrow>
            sendMessage L net env p messageText s
              = (s, UploadMedia f # logged
                    @ [Console_error [js ''Socket not connected. Reconnecting...''],
                       Socket_connect]))
    \<and> (\<forall>f err logged. file_st s = Some f \<and> uploadMediaToS3 net p f = (Inl err, logged) \<longrightarrow>
            sendMessage L net env p messageText s = (s, UploadMedia f # logged @ [Rejected err]))
    \<and> (\<forall>err. file_st s = None
            \<and> AES_encrypt L (drawn_salt env) messageText AES_KEY = Inl err \<longrightarrow>
            sendMessage L net env p messageText s = (s, [Rejected err]))
    \<and> (\<forall>f r logged err. file_st s = Some f \<and> uploadMediaToS3 net p f = (Inr r, logged)
            \<and> AES_encrypt L (drawn_salt env) messageText AES_KEY = Inl err \<longrightarrow>
            sendMessage L net env p messageText s = (s, UploadMedia f # logged @ [Rejected err]))"
proof -
  have unchanged: "fst (sendMessage L net env p messageText s) = s"
    using assms
    by (auto simp add: sendMessage_def Let_def split: option.splits sum.splits prod.splits)
  have rest: "(\<forall>c. file_st s = None \<and> AES_encrypt L (drawn_salt env) messageText AES_KEY = Inr c \<longrightarrow>
            sendMessage L net env p messageText s
              = (s, [Console_error [js ''Socket not connected. Reconnecting...''], Socket_connect]))
    \<and> (\<forall>f r logged c. file_st s = Some f \<and> uploadMediaToS3 net p f = (Inr r, logged)
            \<and> AES_encrypt L (drawn_salt env) messageText AES_KEY = Inr c \<longrightarrow>
            sendMessage L net env p messageText s
              = (s, UploadMedia f # logged
                    @ [Console_error [js ''Socket not connected. Reconnecting...''],
                       Socket_connect]))
    \<and> (\<forall>f err logged. file_st s = Some f \<and> uploadMediaToS3 net p f = (Inl err, logged) \<longrightarrow>
            sendMessage L net env p messageText s = (s, UploadMedia f # logged @ [Rejected err]))
    \<and> (\<forall>err. file_st s = None
            \<and> AES_encrypt L (drawn_salt env) messageText AES_KEY = Inl err \<longrightarrow>
            sendMessage L net env p messageText s = (s, [Rejected err]))
    \<and> (\<forall>f r logged err. file_st s = Some f \<and> uploadMediaToS3 net p f = (Inr r, logged)
            \<and> AES_encrypt L (drawn_salt env) messageText AES_KEY = Inl err \<longrightarrow>
            sendMessage L net env p messageText s = (s, UploadMedia f # logged @ [Rejected err]))"
    using assms
    by (auto simp add: sendMessage_def encryptMessage_def)
  from unchanged rest show ?thesis by (rule conjI)
qed

theorem sendMessage_disconnected_witness:
  "js_trim (js ''hi'') \<noteq> []
   \<and> \<not> socket_connected (example_env False)
   \<and> file_st (initial_state\<lparr>newMessage := js ''hi''\<rparr>) = None
   \<and> AES_encrypt reversing_CryptoJS (drawn_salt (example_env False)) (js ''hi'') AES_KEY
       = Inr (rev (js ''hi''))
   \<and> sendMessage reversing_CryptoJS unreachable_network (example_env False)
        (example_props ''g1'' (example_user ''u1'' ''ann'')) (js ''hi'')
        (initial_state\<lparr>newMessage := js ''hi''\<rparr>)
      = (initial_state\<lparr>newMessage := js ''hi''\<rparr>,
         [Console_error [js ''Socket not connected. Reconnecting...''], Socket_connect])
   \<and> js_trim [0xD800] \<noteq> []
   \<and> AES_encrypt reversing_CryptoJS (drawn_salt (example_env False)) [0xD800] AES_KEY
       = Inl (Error (js ''URI malformed''))
   \<and> sendMessage reversing_CryptoJS unreachable_network (example_env False)
        (example_props ''g1'' (example_user ''u1'' ''ann'')) [0xD800]
        (initial_state\<lparr>newMessage := [0xD800]\<rparr>)
      = (initial_state\<lparr>newMessage := [0xD800]\<rparr>, [Rejected (Error (js ''URI malformed''))])
   \<and> file_st (initial_state\<lparr>file_st := Some example_file\<rparr>) = Some example_file
   \<and> uploadMediaToS3 refusing_network (example_props ''g1'' (example_user ''u1'' ''ann''))
        example_file
      = (Inl (Error (js ''Failed to upload media to S3'')),
         [Console_error [js ''Upload failed:'', js ''AccessDenied'']])
   \<and> sendMessage reversing_CryptoJS refusing_network (example_env False)
        (example_props ''g1'' (example_user ''u1'' ''ann'')) (js ''hi'')
        (initial_state\<lparr>file_st := Some example_file\<rparr>)
      = (initial_state\<lparr>file_st := Some example_file\<rparr>,
         [UploadMedia example_file, Console_error [js ''Upload failed:'', js ''AccessDenied''],
          Rejected (Error (js ''Failed to upload media to S3''))])"
proof -
  let ?p = "example_props ''g1'' (example_user ''u1'' ''ann'')"
  have text_ok: "js_trim (js ''hi'') \<noteq> []"
    by (simp add: js_trim_def is_js_whitespace_def js_def)
  have lone_ok: "js_trim [0xD800] \<noteq> []"
    by (simp add: js_trim_def is_js_whitespace_def)
  have off: "\<not> socket_connected (example_env False)"
    by (simp add: example_env_def)
  have nofile: "file_st (initial_state\<lparr>newMessage := js ''hi''\<rparr>) = None"
    by (simp add: initial_state_def)
  have nofile': "file_st (initial_state\<lparr>newMessage := [0xD800]\<rparr>) = None"
    by (simp add: initial_state_def)
  have withfile: "file_st (initial_state\<lparr>file_st := Some example_file\<rparr>) = Some example_file"
    by simp
  have enc: "AES_encrypt reversing_CryptoJS (drawn_salt (example_env False)) (js ''hi'') AES_KEY
               = Inr (rev (js ''hi''))"
    by (simp add: reversing_CryptoJS_def js_def is_high_surrogate_def is_low_surrogate_def)
  have lone: "AES_encrypt reversing_CryptoJS (drawn_salt (example_env False)) [0xD800] AES_KEY
               = Inl (Error (js ''URI malformed''))"
    by (simp add: reversing_CryptoJS_def is_high_surrogate_def is_low_surrogate_def)
  have refused: "uploadMediaToS3 refusing_network ?p example_file
      = (Inl (Error (js ''Failed to upload media to S3'')),
         [Console_error [js ''Upload failed:'', js ''AccessDenied'']])"
    by (simp add: uploadMediaToS3_def refusing_network_def example_network_def)
  note sent = sendMessage_disconnected
    [where L = reversing_CryptoJS and net = unreachable_network and p = ?p, OF text_ok off]
  note sent_lone = sendMessage_disconnected
    [where L = reversing_CryptoJS and net = unreachable_network and p = ?p, OF lone_ok off]
  note sent_file = sendMessage_disconnected
    [where L = reversing_CryptoJS and net = refusing_network and p = ?p, OF text_ok off]
  from sent [of "initial_state\<lparr>newMessage := js ''hi''\<rparr>"] nofile enc
  have a: "sendMessage reversing_CryptoJS unreachable_network (example_env False) ?p (js ''hi'')
        (initial_state\<lparr>newMessage := js ''hi''\<rparr>)
      = (initial_state\<lparr>newMessage := js ''hi''\<rparr>,
         [Console_error [js ''Socket not connected. Reconnecting...''], Socket_connect])"
    by blast
  from sent_lone [of "initial_state\<lparr>newMessage := [0xD800]\<rparr>"] nofile' lone
  have b: "sendMessage reversing_CryptoJS unreachable_network (example_env False) ?p [0xD800]
        (initial_state\<lparr>newMessage := [0xD800]\<rparr>)
      = (initial_state\<lparr>newMessage := [0xD800]\<rparr>, [Rejected (Error (js ''URI malformed''))])"
    by blast
  from sent_file [of "initial_state\<lparr>file_st := Some example_file\<rparr>"] withfile refused
  have c: "sendMessage reversing_CryptoJS refusing_network (example_env False) ?p (js ''hi'')
        (initial_state\<lparr>file_st := Some example_file\<rparr>)
      = (initial_state\<lparr>file_st := Some example_file\<rparr>,
         UploadMedia example_file # [Console_error [js ''Upload failed:'', js ''AccessDenied'']]
           @ [Rejected (Error (js ''Failed to upload media to S3''))])"
    by blast
  from text_ok off nofile enc a lone_ok lone b withfile refused c show ?thesis by simp
qed

subsection \<open>Signed media links\<close>








subsection \<open>Typing indicator\<close>

lemma run_due_typingUser:
  "typingUser (run_due now ds s) = (if \<exists>d \<in> set ds. d \<le> now then [] else typingUser s)"
  by (induction ds arbitrary: s) (auto simp add: timeout_callback_def Let_def)

lemma run_due_timers: "timers (run_due now ds s) = filter (\<lambda>d. now < d) ds"
  by (induction ds arbitrary: s) (auto simp add: Let_def)

lemma elapse_typingUser:
  "typingUser (elapse now s) = (if \<exists>d \<in> set (timers s). d \<le> now then [] else typingUser s)"
  by (simp add: elapse_def run_due_typingUser)

lemma elapse_timers: "timers (elapse now s) = filter (\<lambda>d. now < d) (timers s)"
  by (simp add: elapse_def run_due_timers)

lemma on_user_typing_active:
  "typingUser (on_user_typing p now (u, group_id (group p)) s) = u"
  "timers (on_user_typing p now (u, group_id (group p)) s) = timers s @ [now + 3000]"
  by (simp_all add: on_user_typing_def)

text \<open>
  Claim C4, as stated: a second signal before the expiry resets the timer, so that the
  indicator stays for 3 seconds after the second signal. It fails: the callback
  scheduled by the first signal is never cancelled and clears the indicator 3 seconds
  after the first signal. With signals at 0 ms and 2000 ms the indicator is cleared at
  4000 ms, before 2000 + 3000 ms.
\<close>

theorem typing_refresh_counterexample:
  "(4000::nat) < 2000 + 3000
   \<and> typingUser
        (elapse 4000
          (on_user_typing (example_props ''g1'' (example_user ''u1'' ''ann'')) 2000
             (js ''bob'', js ''g1'')
             (elapse 2000
               (on_user_typing (example_props ''g1'' (example_user ''u1'' ''ann'')) 0
                  (js ''bob'', js ''g1'') initial_state)))) = []"
  by (simp add: elapse_typingUser elapse_timers on_user_typing_def example_props_def
      initial_state_def)

text \<open>
  Claim C4, amended. A typing signal for the active group, received at time \<open>now\<close>, shows
  its user at once and schedules one more clearing, due at \<open>now + 3000\<close>; the pending
  clearings are kept. The indicator is cleared as soon as any pending clearing is due:
  at \<open>now + 3000\<close> when none was pending, and, when a signal received at \<open>first\<close> is
  refreshed before its expiry, at \<open>first + 3000\<close>, the deadline of the first signal.
  There is one indicator only, and a signal for another group changes nothing.
\<close>

theorem typing_indicator_expiry:
  assumes "now \<le> t"
  shows "typingUser (on_user_typing p now (u, group_id (group p)) (elapse now s)) = u
    \<and> timers (on_user_typing p now (u, group_id (group p)) (elapse now s))
        = filter (\<lambda>d. now < d) (timers s) @ [now + 3000]
    \<and> typingUser (elapse t (on_user_typing p now (u, group_id (group p)) (elapse now s)))
        = (if (\<exists>d \<in> set (timers s). now < d \<and> d \<le> t) \<or> now + 3000 \<le> t then [] else u)
    \<and> (timers s = [] \<longrightarrow>
          typingUser (elapse t (on_user_typing p now (u, group_id (group p)) (elapse now s)))
            = (if now + 3000 \<le> t then [] else u))
    \<and> (timers s = [] \<and> first \<le> now \<and> now < first + 3000 \<longrightarrow>
          typingUser
            (elapse t (on_user_typing p now (u, group_id (group p))
                         (elapse now (on_user_typing p first (u0, group_id (group p)) s))))
            = (if first + 3000 \<le> t then [] else u))
    \<and> (gid \<noteq> group_id (group p) \<longrightarrow> on_user_typing p now (u, gid) s = s)"
  using assms
  by (auto simp add: elapse_typingUser elapse_timers on_user_typing_active on_user_typing_def)

theorem typing_indicator_expiry_witness:
  "typingUser
        (elapse 2999
          (on_user_typing (example_props ''g1'' (example_user ''u1'' ''ann'')) 2000
             (js ''bob'', js ''g1'')
             (elapse 2000
               (on_user_typing (example_props ''g1'' (example_user ''u1'' ''ann'')) 0
                  (js ''bob'', js ''g1'') initial_state)))) = js ''bob''
   \<and> typingUser
        (elapse 3000
          (on_user_typing (example_props ''g1'' (example_user ''u1'' ''ann'')) 2000
             (js ''bob'', js ''g1'')
             (elapse 2000
               (on_user_typing (example_props ''g1'' (example_user ''u1'' ''ann'')) 0
                  (js ''bob'', js ''g1'') initial_state)))) = []"
proof -
  let ?p = "example_props ''g1'' (example_user ''u1'' ''ann'')"
  have g: "group_id (group ?p) = js ''g1''"
    by (simp add: example_props_def)
  have none: "timers initial_state = []"
    by (simp add: initial_state_def)
  have a: "(2000::nat) \<le> 2999" and b: "(2000::nat) \<le> 3000"
    and c: "(0::nat) \<le> 2000 \<and> (2000::nat) < 0 + 3000"
    by simp_all
  from typing_indicator_expiry [OF a, of ?p "js ''bob''" initial_state 0 "js ''bob''" "js ''g1''"]
    none c
  have x: "typingUser
        (elapse 2999 (on_user_typing ?p 2000 (js ''bob'', js ''g1'')
             (elapse 2000 (on_user_typing ?p 0 (js ''bob'', js ''g1'') initial_state))))
       = js ''bob''"
    unfolding g by simp
  from typing_indicator_expiry [OF b, of ?p "js ''bob''" initial_state 0 "js ''bob''" "js ''g1''"]
    none c
  have y: "typingUser
        (elapse 3000 (on_user_typing ?p 2000 (js ''bob'', js ''g1'')
             (elapse 2000 (on_user_typing ?p 0 (js ''bob'', js ''g1'') initial_state))))
       = []"
    unfolding g by simp
  from x y show ?thesis by simp
qed

end
